theory Spec2Isabelle
  imports Main "HOL-Library.Sublist"
begin

section \<open>MariaDB Index form: the refresh handler\<close>

text \<open>
  The handler registered with \<^verbatim>\<open>frappe.ui.form.on("MariaDB Index", { refresh(frm) ... })\<close>.
  A form holds its field controls; each control knows whether it has an input and carries
  its docfield (\<^verbatim>\<open>field.df\<close>), whose properties are a dictionary from property name to value.
  The three form methods the handler calls belong to the Frappe framework; they are modelled
  by the one effect each has on the form: \<^verbatim>\<open>set_read_only\<close> restricts the form's permissions
  to the read-only ones, \<^verbatim>\<open>set_df_property\<close> stores a property on the docfield of the
  given field name, \<^verbatim>\<open>disable_save\<close> raises the form's \<^verbatim>\<open>save_disabled\<close> flag.
\<close>

record docfield =
  fieldname :: string
  props :: "string \<rightharpoonup> string"

record form_field =
  has_input :: bool
  df :: docfield

record form =
  frm_fields :: "form_field list"
  perm_read_only :: bool
  save_disabled :: bool

definition set_read_only :: "form \<Rightarrow> form" where
  "set_read_only frm = frm\<lparr>perm_read_only := True\<rparr>"

definition set_prop :: "string \<Rightarrow> string \<Rightarrow> string \<Rightarrow> form_field \<Rightarrow> form_field" where
  "set_prop fname property v f =
     (if fieldname (df f) = fname
      then f\<lparr>df := (df f)\<lparr>props := (props (df f))(property \<mapsto> v)\<rparr>\<rparr>
      else f)"

definition set_df_property :: "form \<Rightarrow> string \<Rightarrow> string \<Rightarrow> string \<Rightarrow> form" where
  "set_df_property frm fname property v =
     frm\<lparr>frm_fields := map (set_prop fname property v) (frm_fields frm)\<rparr>"

definition disable_save :: "form \<Rightarrow> form" where
  "disable_save frm = frm\<lparr>save_disabled := True\<rparr>"

text \<open>
  \<^verbatim>\<open>frm.fields.filter((field) => field.has_input).forEach((field) => { ... })\<close>:
  the filtered array is built once, then the loop runs over it from left to right.
\<close>

fun for_each_field :: "form \<Rightarrow> form_field list \<Rightarrow> form" where
  "for_each_field frm [] = frm"
| "for_each_field frm (f # fs) =
     for_each_field (set_df_property frm (fieldname (df f)) ''read_only'' ''1'') fs"

definition refresh :: "form \<Rightarrow> form" where
  "refresh frm =
     (let frm1 = set_read_only frm;
          frm2 = for_each_field frm1 (filter has_input (frm_fields frm1))
      in disable_save frm2)"

section \<open>Index Manager page: the refresh function\<close>

text \<open>
  The document, as far as \<^verbatim>\<open>refresh\<close> touches it. Frappe keeps every page visited in the
  document, and \<^verbatim>\<open>make_app_page\<close> gives each of them one \<^verbatim>\<open>.page-content\<close> element. The
  model holds the children of this page's element, among them the \<^verbatim>\<open>div.row.layout-main\<close>
  that contains \<^verbatim>\<open>page.main\<close>, and the children of the elements of the pages that come
  before and after it in document order; the markup inside \<^verbatim>\<open>page.main\<close>, which the
  element keeps when it is detached from the document; and the log of the requests sent
  with \<^verbatim>\<open>frappe.call\<close>.
\<close>

record table_row =
  name :: string
  num_read_queries :: int
  num_write_queries :: int
  num_queries :: int

record stat_row =
  creation :: string
  sql_count :: int

record indexes_msg =
  total :: int

datatype request =
  Indexes bool  \<comment> \<open>\<^verbatim>\<open>toolbox.api.index_manager.indexes\<close>, argument \<^verbatim>\<open>toolbox_only\<close>\<close>
| Tables nat    \<comment> \<open>\<^verbatim>\<open>toolbox.api.index_manager.tables\<close>, argument \<^verbatim>\<open>limit\<close>\<close>
| Summary       \<comment> \<open>\<^verbatim>\<open>toolbox.api.index_manager.summary\<close>\<close>

datatype js_error =
  CallRejected string  \<comment> \<open>the promise of \<^verbatim>\<open>frappe.call\<close> rejects\<close>
| TypeError            \<comment> \<open>a method is called on \<^verbatim>\<open>null\<close>\<close>

record server =
  indexes_api :: "bool \<Rightarrow> js_error + indexes_msg"
  tables_api :: "nat \<Rightarrow> js_error + table_row list"
  summary_api :: "js_error + stat_row list"

datatype markup =
  Initial
| Blank
| DisabledMessage string string
    \<comment> \<open>heading and notice "Index Manager is disabled", with the link's target and label\<close>

text \<open>
  The configuration handed to \<^verbatim>\<open>new frappe.Chart\<close>: type, title (empty when none is
  given), labels and the named datasets. Colours, height and the drawing options are
  constants of the source and left out.
\<close>

record chart =
  chart_type :: string
  chart_title :: string
  chart_labels :: "string list"
  chart_datasets :: "(string \<times> int list) list"

text \<open>
  A card element: the values that \<^verbatim>\<open>makeCard\<close> interpolates into its template (width,
  the markup of the title, of the subtitle and of the body, each as the string the
  template receives), the target of a link appended to the card afterwards, and the chart
  drawn in it. The \<^verbatim>\<open>id\<close> option lands inside the \<^verbatim>\<open>style\<close> attribute of the template and
  is left out.
\<close>

record card =
  card_width :: string
  card_title :: string
  card_subtitle :: string
  card_html :: string
  card_link :: "string option"
  card_chart :: "chart option"

datatype node =
  LayoutMain  \<comment> \<open>the \<^verbatim>\<open>div.row.layout-main\<close>, which contains \<^verbatim>\<open>page.main\<close>\<close>
| Card card

record document =
  pages_before :: "node list list"
  page_content :: "node list"
  pages_after :: "node list list"
  main_html :: markup
  requests :: "request list"

definition ToolboxSettings :: string where
  "ToolboxSettings = ''ToolBox Settings''"

text \<open>
  \<^verbatim>\<open>frappe.utils.generate_route\<close> is the framework's; the page only embeds its result
  in a link, so it is a parameter here.
\<close>

type_synonym route_fn = "string \<Rightarrow> string \<Rightarrow> string"

definition disabled_message :: "route_fn \<Rightarrow> markup" where
  "disabled_message generate_route =
     DisabledMessage (generate_route ''DocType'' ToolboxSettings) ToolboxSettings"

text \<open>How a template literal prints an integer: decimal digits, with a sign if negative.\<close>

function show_nat :: "nat \<Rightarrow> string" where
  "show_nat n =
     (if n < 10 then [''0123456789'' ! n]
      else show_nat (n div 10) @ [''0123456789'' ! (n mod 10)])"
  by pat_completeness auto
termination
  by (relation "measure id") auto

declare show_nat.simps [simp del]

definition show_int :: "int \<Rightarrow> string" where
  "show_int i = (if i < 0 then CHR ''-'' # show_nat (nat (- i)) else show_nat (nat i))"

text \<open>
  The options object of \<^verbatim>\<open>makeCard\<close>. \<^verbatim>\<open>opts.x || d\<close> and \<^verbatim>\<open>opts.x ? ... : ""\<close> take an
  absent and an empty option alike; a bare \<^verbatim>\<open>${opts.x}\<close> prints an absent one as
  \<^verbatim>\<open>undefined\<close>.
\<close>

record card_opts =
  opt_width :: "string option"
  opt_title :: "string option"
  opt_subtitle :: "string option"
  opt_html :: "string option"

definition no_opts :: card_opts where
  "no_opts = \<lparr>opt_width = None, opt_title = None, opt_subtitle = None, opt_html = None\<rparr>"

definition or_else :: "string option \<Rightarrow> string \<Rightarrow> string" where
  "or_else v d = (case v of None \<Rightarrow> d | Some s \<Rightarrow> if s = [] then d else s)"

definition printed :: "string option \<Rightarrow> string" where
  "printed v = (case v of None \<Rightarrow> ''undefined'' | Some s \<Rightarrow> s)"

text \<open>\<^verbatim>\<open>makeCard\<close> of the later revision, and of the revision in \<^verbatim>\<open>index_manager.js\<close>.\<close>

definition makeCard :: "card_opts \<Rightarrow> card" where
  "makeCard opts =
     \<lparr>card_width = or_else (opt_width opts) ''18rem'',
      card_title = or_else (opt_title opts) [],
      card_subtitle = or_else (opt_subtitle opts) [],
      card_html = or_else (opt_html opts) [],
      card_link = None, card_chart = None\<rparr>"

definition makeCard_v1 :: "card_opts \<Rightarrow> card" where
  "makeCard_v1 opts =
     \<lparr>card_width = or_else (opt_width opts) ''18rem'',
      card_title = printed (opt_title opts),
      card_subtitle = printed (opt_subtitle opts),
      card_html = printed (opt_html opts),
      card_link = None, card_chart = None\<rparr>"

definition getTables :: "server \<Rightarrow> nat \<Rightarrow> document \<Rightarrow> (js_error + table_row list) \<times> document" where
  "getTables srv limit d = (tables_api srv limit, d\<lparr>requests := requests d @ [Tables limit]\<rparr>)"

definition getIndexes :: "server \<Rightarrow> bool \<Rightarrow> document \<Rightarrow> (js_error + indexes_msg) \<times> document" where
  "getIndexes srv toolbox_only d =
     (indexes_api srv toolbox_only, d\<lparr>requests := requests d @ [Indexes toolbox_only]\<rparr>)"

definition getSQLStats :: "server \<Rightarrow> document \<Rightarrow> (js_error + stat_row list) \<times> document" where
  "getSQLStats srv d = (summary_api srv, d\<lparr>requests := requests d @ [Summary]\<rparr>)"

text \<open>
  \<^verbatim>\<open>$(card).appendTo(".page-content").get(0)\<close>, then whatever the caller does to that
  element. The selector is document-wide: jQuery appends the card to every
  \<^verbatim>\<open>.page-content\<close> element, a copy to each but the last, and \<^verbatim>\<open>get(0)\<close> is the one in
  the first element of the document. So the caller's change \<open>f\<close> reaches the card in the
  first element only.
\<close>

definition appendTo_page_content :: "card \<Rightarrow> (card \<Rightarrow> card) \<Rightarrow> document \<Rightarrow> document" where
  "appendTo_page_content k f d =
     (case pages_before d of
        [] \<Rightarrow>
          d\<lparr>page_content := page_content d @ [Card (f k)],
            pages_after := map (\<lambda>c. c @ [Card k]) (pages_after d)\<rparr>
      | b # bs \<Rightarrow>
          d\<lparr>pages_before := (b @ [Card (f k)]) # map (\<lambda>c. c @ [Card k]) bs,
            page_content := page_content d @ [Card k],
            pages_after := map (\<lambda>c. c @ [Card k]) (pages_after d)\<rparr>)"

definition makeActiveTablesChart :: "table_row list \<Rightarrow> chart" where
  "makeActiveTablesChart tables =
     \<lparr>chart_type = ''bar'', chart_title = ''Most Active Tables'',
      chart_labels = map name tables,
      chart_datasets = [(''Read'', map num_read_queries tables),
                        (''Write'', map num_write_queries tables)]\<rparr>"

definition makeActiveTablesChart_v1 :: "table_row list \<Rightarrow> chart" where
  "makeActiveTablesChart_v1 tables =
     \<lparr>chart_type = ''bar'', chart_title = [],
      chart_labels = map name tables,
      chart_datasets = [(''Read'', map num_read_queries tables),
                        (''Write'', map num_write_queries tables)]\<rparr>"

definition makeSQLStatsChart :: "stat_row list \<Rightarrow> chart" where
  "makeSQLStatsChart stats =
     \<lparr>chart_type = ''line'', chart_title = ''SQL Queries'',
      chart_labels = map creation stats,
      chart_datasets = [(''Queries Recorded'', map sql_count stats)]\<rparr>"

text \<open>
  \<^verbatim>\<open>makeActiveTablesCard\<close>: the rows are built by interpolating each name and count, as
  they are, into the row template, and joined. The body kept here is the joined rows; the
  constant table frame around them is left out.
\<close>

definition table_rows_html :: "table_row list \<Rightarrow> string" where
  "table_rows_html tables =
     concat (map (\<lambda>r. ''<tr><td>'' @ name r @ ''</td> <td>'' @ show_int (num_queries r) @
                       ''</td> </tr>'') tables)"

definition makeActiveTablesCard :: "table_row list \<Rightarrow> card" where
  "makeActiveTablesCard tables =
     makeCard_v1 (no_opts\<lparr>opt_title := Some ''Most Active Tables'',
                          opt_subtitle := Some ''Tables which are most frequently queried'',
                          opt_html := Some (table_rows_html tables)\<rparr>)"

definition createTablesChart :: "table_row list \<Rightarrow> document \<Rightarrow> document" where
  "createTablesChart tables d =
     appendTo_page_content (makeCard (no_opts\<lparr>opt_width := Some ''100''\<rparr>))
       (\<lambda>k. k\<lparr>card_chart := Some (makeActiveTablesChart tables)\<rparr>) d"

definition createIndexesShortcut :: "route_fn \<Rightarrow> indexes_msg \<Rightarrow> document \<Rightarrow> document" where
  "createIndexesShortcut generate_route indexes d =
     appendTo_page_content
       (makeCard (no_opts\<lparr>opt_title := Some (''<h3>'' @ show_int (total indexes) @ ''</h3>''),
                         opt_subtitle := Some ''Indexes created by ToolBox''\<rparr>))
       (\<lambda>k. k\<lparr>card_link := Some (generate_route ''doctype'' ''MariaDB Index'')\<rparr>) d"

definition createSQLStatsChart :: "stat_row list \<Rightarrow> document \<Rightarrow> document" where
  "createSQLStatsChart sqlStats d =
     appendTo_page_content (makeCard (no_opts\<lparr>opt_width := Some ''100''\<rparr>))
       (\<lambda>k. k\<lparr>card_chart := Some (makeSQLStatsChart sqlStats)\<rparr>) d"

text \<open>
  \<^verbatim>\<open>document.querySelector("#page-index-manager > ... > div.row.layout-main")\<close> is scoped
  to this page: it finds the layout row among the children of the page's own content, or
  \<^verbatim>\<open>null\<close>.
\<close>

definition remove_layout_main :: "document \<Rightarrow> document" where
  "remove_layout_main d = d\<lparr>page_content := remove1 LayoutMain (page_content d)\<rparr>"

text \<open>
  The later revision of the page (the one with the "Refresh" menu item).
  \<^verbatim>\<open>$(page.container.find(".page-content")[0]).empty()\<close> is scoped to the page and
  empties its own content. The function is \<^verbatim>\<open>async\<close> and awaits each request before the
  next statement; a rejected request rejects the whole call at that point. The result is
  the rejection, if any, and the document.
\<close>

definition refresh_page ::
  "route_fn \<Rightarrow> bool \<Rightarrow> server \<Rightarrow> document \<Rightarrow> js_error option \<times> document" where
  "refresh_page generate_route enabled srv d =
     (if \<not> enabled then (None, d\<lparr>main_html := disabled_message generate_route\<rparr>)
      else
        let d0 = d\<lparr>page_content := []\<rparr> in
        (case getIndexes srv True d0 of
           (Inl e, d1) \<Rightarrow> (Some e, d1)
         | (Inr indexes, d1) \<Rightarrow>
             let d2 = createIndexesShortcut generate_route indexes d1 in
             (case getTables srv 10 d2 of
                (Inl e, d3) \<Rightarrow> (Some e, d3)
              | (Inr tables, d3) \<Rightarrow>
                  let d4 = createTablesChart tables d3 in
                  (case getSQLStats srv d4 of
                     (Inl e, d5) \<Rightarrow> (Some e, d5)
                   | (Inr sqlStats, d5) \<Rightarrow>
                       (None, remove_layout_main (createSQLStatsChart sqlStats d5))))))"

text \<open>
  The revision stored as \<^verbatim>\<open>toolbox/toolbox/page/index_manager/index_manager.js\<close>. It
  sends the tables request and registers a callback with \<^verbatim>\<open>then\<close>; the rest of the body
  runs before the answer arrives: \<^verbatim>\<open>querySelector(...).remove()\<close>, without \<^verbatim>\<open>?.\<close>, is a
  TypeError when the layout row is no longer there. The callback runs when the request
  succeeds, whatever became of the body: it appends a card and draws the chart in it,
  then appends the card of the first five tables.
\<close>

definition refresh_page_v1 ::
  "route_fn \<Rightarrow> bool \<Rightarrow> server \<Rightarrow> document \<Rightarrow> js_error option \<times> document" where
  "refresh_page_v1 generate_route enabled srv d =
     (if \<not> enabled then (None, d\<lparr>main_html := disabled_message generate_route\<rparr>)
      else
        let d0 = d\<lparr>main_html := Blank\<rparr>;
            (answer, d1) = getTables srv 10 d0;
            (outcome, d2) =
              (if LayoutMain \<in> set (page_content d1) then (None, remove_layout_main d1)
               else (Some TypeError, d1))
        in (case answer of
              Inl e \<Rightarrow> (outcome, d2)
            | Inr tables \<Rightarrow>
                (outcome,
                 appendTo_page_content (makeActiveTablesCard (take 5 tables)) (\<lambda>k. k)
                   (appendTo_page_content (makeCard_v1 (no_opts\<lparr>opt_width := Some ''100%''\<rparr>))
                      (\<lambda>k. k\<lparr>card_chart := Some (makeActiveTablesChart_v1 tables)\<rparr>) d2))))"

text \<open>
  What the page shows: the children of its content element, the layout row showing the
  markup of \<^verbatim>\<open>page.main\<close>. Once the layout row is gone, \<^verbatim>\<open>page.main\<close> is detached and
  its markup shows nowhere.
\<close>

datatype shown = MainSection markup | CardShown card

definition rendered :: "document \<Rightarrow> shown list" where
  "rendered d =
     map (\<lambda>n. case n of LayoutMain \<Rightarrow> MainSection (main_html d) | Card k \<Rightarrow> CardShown k)
       (page_content d)"

section \<open>Lifecycle manager of managed indexes\<close>

text \<open>
  The Backtester / Lifecycle Manager belongs to the repository's Python back end; the
  sources available are the front-end scripts and the documents only. Its operations are
  therefore written down from the specification, section 4.6 and the data model of
  section 3; what the specification leaves to configuration or to the database engine is
  a parameter.
\<close>

text \<open>Modelled from the spec: an entry of the live index catalog (name, table, column
  list), as catalog introspection returns it; the catalog code is missing.\<close>

record index_entry =
  index_name :: string
  index_table :: string
  index_columns :: "string list"

text \<open>Modelled from the spec: the IndexCandidate handed to \<^verbatim>\<open>backtest\<close> (table, ordered
  column list) with the baseline rows-examined captured by the Analyzer; the
  generator code is missing.\<close>

record index_candidate =
  cand_table :: string
  cand_columns :: "string list"
  baseline_rows :: nat

text \<open>Modelled from the spec: the verdict of a ManagedIndex, "pending \<rightarrow> (kept | dropped |
  failed)"; the backtester code is missing.\<close>

datatype verdict = Pending | Kept | Dropped | Failed

text \<open>Modelled from the spec: the ManagedIndex record that \<^verbatim>\<open>backtest\<close> returns (the index,
  baseline and post-creation rows-examined, verdict; the creation time is left out); the
  backtester code is missing.\<close>

record managed_index =
  mi_index :: index_entry
  mi_baseline :: nat
  mi_post :: "nat option"
  mi_verdict :: verdict

text \<open>Modelled from the spec: the configuration of the stage. The system-generated name
  prefix (the tag), the rest of a generated name, the allow-list pattern for identifiers
  and the improvement metric ("a pluggable policy") are not fixed by the specification
  and are parameters; the minimum improvement threshold and skip-backtest are the
  recognised options of section 6.\<close>

record lifecycle_config =
  name_tag :: string
  name_rest :: "index_candidate \<Rightarrow> string"
  allow_listed :: "string \<Rightarrow> bool"
  improvement :: "nat \<Rightarrow> nat \<Rightarrow> int"
  min_improvement :: int
  skip_backtest :: bool

text \<open>Modelled from the spec: what the database engine answers during one backtest:
  whether CREATE INDEX finished within its timeout and without lock contention, and the
  rows examined by the re-run EXPLAIN; the engine boundary code is missing.\<close>

record engine_reply =
  create_in_time :: bool
  rows_examined_after :: nat

text \<open>Modelled from the spec: the DDL statements the manager executes, CREATE INDEX and
  DROP INDEX; the DDL code is missing.\<close>

datatype ddl = CreateIndex index_entry | DropIndex index_entry

text \<open>Modelled from the spec: the state the manager works on, the live catalog and the
  log of the DDL it has executed, oldest first.\<close>

record lifecycle_state =
  catalog :: "index_entry list"
  executed :: "ddl list"

text \<open>Modelled from the spec: an index is the system's own when its name is "tagged with
  a recognizable system-generated prefix".\<close>

definition is_tagged :: "lifecycle_config \<Rightarrow> index_entry \<Rightarrow> bool" where
  "is_tagged cfg ix = prefix (name_tag cfg) (index_name ix)"

text \<open>Modelled from the spec: the index a backtest creates for a candidate, under a
  generated name that starts with the tag.\<close>

definition candidate_index :: "lifecycle_config \<Rightarrow> index_candidate \<Rightarrow> index_entry" where
  "candidate_index cfg cand =
     \<lparr>index_name = name_tag cfg @ name_rest cfg cand,
      index_table = cand_table cand, index_columns = cand_columns cand\<rparr>"

text \<open>Modelled from the spec: "validate the table and column identifiers against a strict
  allow-list pattern".\<close>

definition valid_candidate :: "lifecycle_config \<Rightarrow> index_candidate \<Rightarrow> bool" where
  "valid_candidate cfg cand =
     (allow_listed cfg (cand_table cand) \<and> list_all (allow_listed cfg) (cand_columns cand))"

text \<open>Modelled from the spec: DDL addresses an index by its name on its table.\<close>

definition same_index :: "index_entry \<Rightarrow> index_entry \<Rightarrow> bool" where
  "same_index ix e = (index_name e = index_name ix \<and> index_table e = index_table ix)"

text \<open>Modelled from the spec: a CREATE INDEX that succeeds adds the index to the catalog.\<close>

definition create_index :: "index_entry \<Rightarrow> lifecycle_state \<Rightarrow> lifecycle_state" where
  "create_index ix st =
     st\<lparr>catalog := catalog st @ [ix], executed := executed st @ [CreateIndex ix]\<rparr>"

text \<open>Modelled from the spec: DROP INDEX removes the index of that name on that table from
  the catalog.\<close>

definition drop_index :: "index_entry \<Rightarrow> lifecycle_state \<Rightarrow> lifecycle_state" where
  "drop_index ix st =
     st\<lparr>catalog := filter (\<lambda>e. \<not> same_index ix e) (catalog st),
        executed := executed st @ [DropIndex ix]\<rparr>"

text \<open>Modelled from the spec: the idempotency check, "a candidate whose columns already
  match a previously kept ManagedIndex ... (detected via catalog comparison)".\<close>

definition already_kept :: "lifecycle_config \<Rightarrow> index_candidate \<Rightarrow> lifecycle_state \<Rightarrow> bool" where
  "already_kept cfg cand st =
     list_ex (\<lambda>e. is_tagged cfg e \<and> index_table e = cand_table cand \<and>
                   index_columns e = cand_columns cand) (catalog st)"

text \<open>Modelled from the spec: \<^verbatim>\<open>backtest(candidate) -> ManagedIndex\<close>, the state machine of
  section 4.6. Validation comes before any DDL; a candidate already kept is a no-op;
  CREATE INDEX fails on a timeout, on lock contention or on a duplicate name; with
  skip-backtest the index is kept unmeasured; otherwise it is kept when the improvement
  exceeds the threshold and dropped when it is below. The specification names no
  transition for an improvement equal to the threshold: the index stays as measured.\<close>

definition backtest ::
  "lifecycle_config \<Rightarrow> engine_reply \<Rightarrow> index_candidate \<Rightarrow> lifecycle_state \<Rightarrow>
   managed_index \<times> lifecycle_state" where
  "backtest cfg reply cand st =
     (let ix = candidate_index cfg cand;
          result = (\<lambda>post v. \<lparr>mi_index = ix, mi_baseline = baseline_rows cand,
                                mi_post = post, mi_verdict = v\<rparr>)
      in if \<not> valid_candidate cfg cand then (result None Failed, st)
         else if already_kept cfg cand st then (result None Kept, st)
         else if \<not> create_in_time reply \<or> list_ex (same_index ix) (catalog st)
           then (result None Failed, st)
         else
           let st1 = create_index ix st;
               post = rows_examined_after reply;
               gain = improvement cfg (baseline_rows cand) post
           in if skip_backtest cfg then (result None Kept, st1)
              else if min_improvement cfg < gain then (result (Some post) Kept, st1)
              else if gain < min_improvement cfg
                then (result (Some post) Dropped, drop_index ix st1)
              else (result (Some post) Pending, st1))"

text \<open>Modelled from the spec: one DROP INDEX for each enumerated entry, in order.\<close>

fun drop_each :: "index_entry list \<Rightarrow> lifecycle_state \<Rightarrow> lifecycle_state" where
  "drop_each [] st = st"
| "drop_each (ix # ixs) st = drop_each ixs (drop_index ix st)"

text \<open>Modelled from the spec: dropping "by table": "the manager must never drop an index
  lacking its own generated-name tag, even if asked to drop by table".\<close>

definition drop_by_table :: "lifecycle_config \<Rightarrow> string \<Rightarrow> lifecycle_state \<Rightarrow> lifecycle_state" where
  "drop_by_table cfg t st =
     drop_each (filter (\<lambda>e. is_tagged cfg e \<and> index_table e = t) (catalog st)) st"

text \<open>Modelled from the spec: the bulk "drop all managed indexes" operation, which
  "enumerates only tagged entries from the catalog".\<close>

definition drop_all_managed :: "lifecycle_config \<Rightarrow> lifecycle_state \<Rightarrow> lifecycle_state" where
  "drop_all_managed cfg st = drop_each (filter (is_tagged cfg) (catalog st)) st"

text \<open>Modelled from the spec: the operations the triggering surface exposes for this stage
  (optimize, drop by table, drop-managed), and a run of them from a catalog on which the
  manager has executed nothing yet.\<close>

datatype lifecycle_op =
  Backtest engine_reply index_candidate
| DropByTable string
| DropAllManaged

fun apply_op :: "lifecycle_config \<Rightarrow> lifecycle_state \<Rightarrow> lifecycle_op \<Rightarrow> lifecycle_state" where
  "apply_op cfg st (Backtest reply cand) = snd (backtest cfg reply cand st)"
| "apply_op cfg st (DropByTable t) = drop_by_table cfg t st"
| "apply_op cfg st DropAllManaged = drop_all_managed cfg st"

fun run :: "lifecycle_config \<Rightarrow> lifecycle_state \<Rightarrow> lifecycle_op list \<Rightarrow> lifecycle_state" where
  "run cfg st [] = st"
| "run cfg st (x # xs) = run cfg (apply_op cfg st x) xs"

definition initial :: "index_entry list \<Rightarrow> lifecycle_state" where
  "initial cat = \<lparr>catalog = cat, executed = []\<rparr>"

text \<open>The indexes named by the DROP INDEX, and by the CREATE INDEX, statements of a log.\<close>

fun dropped_indexes :: "ddl list \<Rightarrow> index_entry list" where
  "dropped_indexes [] = []"
| "dropped_indexes (DropIndex ix # ds) = ix # dropped_indexes ds"
| "dropped_indexes (CreateIndex ix # ds) = dropped_indexes ds"

fun created_indexes :: "ddl list \<Rightarrow> index_entry list" where
  "created_indexes [] = []"
| "created_indexes (CreateIndex ix # ds) = ix # created_indexes ds"
| "created_indexes (DropIndex ix # ds) = created_indexes ds"

text \<open>The two invariants of a run: only tagged indexes have been dropped, and every tagged
  index in the catalog or among the dropped ones was created by the manager.\<close>

definition only_tagged_dropped :: "lifecycle_config \<Rightarrow> lifecycle_state \<Rightarrow> bool" where
  "only_tagged_dropped cfg st = (\<forall>ix \<in> set (dropped_indexes (executed st)). is_tagged cfg ix)"

definition tagged_are_own :: "lifecycle_config \<Rightarrow> lifecycle_state \<Rightarrow> bool" where
  "tagged_are_own cfg st =
     (\<forall>ix \<in> set (catalog st) \<union> set (dropped_indexes (executed st)).
        is_tagged cfg ix \<longrightarrow> ix \<in> set (created_indexes (executed st)))"

subsection \<open>Sample inputs\<close>

definition form0 :: form where
  "form0 = \<lparr>frm_fields =
      [\<lparr>has_input = True, df = \<lparr>fieldname = ''table'', props = Map.empty\<rparr>\<rparr>,
       \<lparr>has_input = False, df = \<lparr>fieldname = ''section_break_1'', props = Map.empty\<rparr>\<rparr>,
       \<lparr>has_input = True, df = \<lparr>fieldname = ''key_name'', props = [''read_only'' \<mapsto> ''0'']\<rparr>\<rparr>],
     perm_read_only = False, save_disabled = False\<rparr>"

definition route0 :: route_fn where
  "route0 kind target = ''/app/'' @ target"

definition server0 :: server where
  "server0 = \<lparr>indexes_api = (\<lambda>toolbox_only. Inr \<lparr>total = 3\<rparr>),
              tables_api = (\<lambda>limit. Inr [\<lparr>name = ''tabNote'', num_read_queries = 7,
                                          num_write_queries = 2, num_queries = 9\<rparr>]),
              summary_api = Inr [\<lparr>creation = ''2023-08-01'', sql_count = 150\<rparr>]\<rparr>"

text \<open>A server whose indexes request is rejected.\<close>

definition server1 :: server where
  "server1 = server0\<lparr>indexes_api := (\<lambda>toolbox_only. Inl (CallRejected ''500''))\<rparr>"

text \<open>A document that holds the Index Manager page alone, as first loaded, and one in
  which a page visited earlier comes before it.\<close>

definition doc0 :: document where
  "doc0 = \<lparr>pages_before = [], page_content = [LayoutMain], pages_after = [],
           main_html = Initial, requests = []\<rparr>"

definition doc1 :: document where
  "doc1 = doc0\<lparr>pages_before := [[LayoutMain]]\<rparr>"

text \<open>The cards these servers lead to: the index shortcut with and without its link, the
  two chart cards of the later revision, a card of width 100 without a chart, and the
  two cards of the revision in \<^verbatim>\<open>index_manager.js\<close>.\<close>

definition shortcut0 :: card where
  "shortcut0 = \<lparr>card_width = ''18rem'', card_title = ''<h3>3</h3>'',
                card_subtitle = ''Indexes created by ToolBox'', card_html = [],
                card_link = Some ''/app/MariaDB Index'', card_chart = None\<rparr>"

definition bare_card0 :: card where
  "bare_card0 = \<lparr>card_width = ''100'', card_title = [], card_subtitle = [], card_html = [],
                 card_link = None, card_chart = None\<rparr>"

definition tables_chart0 :: card where
  "tables_chart0 = bare_card0\<lparr>card_chart := Some
     \<lparr>chart_type = ''bar'', chart_title = ''Most Active Tables'', chart_labels = [''tabNote''],
      chart_datasets = [(''Read'', [7]), (''Write'', [2])]\<rparr>\<rparr>"

definition stats_chart0 :: card where
  "stats_chart0 = bare_card0\<lparr>card_chart := Some
     \<lparr>chart_type = ''line'', chart_title = ''SQL Queries'', chart_labels = [''2023-08-01''],
      chart_datasets = [(''Queries Recorded'', [150])]\<rparr>\<rparr>"

definition tables_chart_v1 :: card where
  "tables_chart_v1 = \<lparr>card_width = ''100%'', card_title = ''undefined'',
     card_subtitle = ''undefined'', card_html = ''undefined'', card_link = None,
     card_chart = Some
       \<lparr>chart_type = ''bar'', chart_title = [], chart_labels = [''tabNote''],
        chart_datasets = [(''Read'', [7]), (''Write'', [2])]\<rparr>\<rparr>"

definition tables_card_v1 :: card where
  "tables_card_v1 = \<lparr>card_width = ''18rem'', card_title = ''Most Active Tables'',
     card_subtitle = ''Tables which are most frequently queried'',
     card_html = ''<tr><td>tabNote</td> <td>9</td> </tr>'', card_link = None,
     card_chart = None\<rparr>"

text \<open>A sample configuration for the lifecycle manager: names start with \<^verbatim>\<open>toolbox_\<close>, the
  improvement is the percentage of rows saved, the threshold is ten per cent. The catalog
  holds one index that somebody else created on the table the run works on.\<close>

definition relative_gain :: "nat \<Rightarrow> nat \<Rightarrow> int" where
  "relative_gain before after =
     (if before = 0 then 0 else ((int before - int after) * 100) div int before)"

definition config0 :: lifecycle_config where
  "config0 = \<lparr>name_tag = ''toolbox_'',
              name_rest = (\<lambda>cand. cand_table cand @
                             concat (map (\<lambda>c. CHR ''_'' # c) (cand_columns cand))),
              allow_listed = (\<lambda>s. s \<noteq> [] \<and> CHR '';'' \<notin> set s),
              improvement = relative_gain, min_improvement = 10, skip_backtest = False\<rparr>"

definition foreign0 :: index_entry where
  "foreign0 = \<lparr>index_name = ''idx_customer'', index_table = ''orders'',
               index_columns = [''customer_id'']\<rparr>"

definition ops0 :: "lifecycle_op list" where
  "ops0 = [Backtest \<lparr>create_in_time = True, rows_examined_after = 990\<rparr>
             \<lparr>cand_table = ''orders'', cand_columns = [''status''], baseline_rows = 1000\<rparr>,
           Backtest \<lparr>create_in_time = True, rows_examined_after = 10\<rparr>
             \<lparr>cand_table = ''orders'', cand_columns = [''customer_id'', ''status''],
              baseline_rows = 1000\<rparr>,
           DropByTable ''orders'']"

section \<open>Properties of the MariaDB Index form\<close>

lemma set_prop_has_input [simp]: "has_input (set_prop n p v f) = has_input f"
  by (simp add: set_prop_def)

lemma set_prop_fieldname [simp]: "fieldname (df (set_prop n p v f)) = fieldname (df f)"
  by (simp add: set_prop_def)

lemma for_each_field_flags [simp]:
  "save_disabled (for_each_field frm fs) = save_disabled frm"
  "perm_read_only (for_each_field frm fs) = perm_read_only frm"
  by (induction fs arbitrary: frm) (simp_all add: set_df_property_def)

text \<open>
  The loop, in closed form: a field is touched exactly when its field name is the name of
  one of the fields looped over.
\<close>

lemma for_each_field_fields:
  "frm_fields (for_each_field frm fs) =
     map (\<lambda>g. if fieldname (df g) \<in> set (map (\<lambda>f. fieldname (df f)) fs)
              then set_prop (fieldname (df g)) ''read_only'' ''1'' g else g) (frm_fields frm)"
proof (induction fs arbitrary: frm)
  case Nil
  then show ?case by simp
next
  case (Cons f fs)
  show ?case
    by (simp add: Cons.IH set_df_property_def set_prop_def)
qed

text \<open>
  C9. Every refresh of the MariaDB Index form leaves the form with saving disabled and
  with read-only permissions, keeps the fields (their names and which of them have an
  input), and leaves every field that has an input with its \<^verbatim>\<open>read_only\<close> property set
  to \<^verbatim>\<open>"1"\<close>.
\<close>

theorem refresh_read_only:
  "save_disabled (refresh frm) \<and> perm_read_only (refresh frm) \<and>
   map has_input (frm_fields (refresh frm)) = map has_input (frm_fields frm) \<and>
   map (\<lambda>f. fieldname (df f)) (frm_fields (refresh frm)) =
     map (\<lambda>f. fieldname (df f)) (frm_fields frm) \<and>
   (\<forall>f \<in> set (frm_fields (refresh frm)).
      has_input f \<longrightarrow> props (df f) ''read_only'' = Some ''1'')"
  by (auto simp: refresh_def Let_def disable_save_def set_read_only_def
        for_each_field_fields set_prop_def)

theorem refresh_read_only_witness:
  "hd (frm_fields (refresh form0)) \<in> set (frm_fields (refresh form0)) \<and>
   has_input (hd (frm_fields (refresh form0))) \<and>
   props (df (hd (frm_fields (refresh form0)))) ''read_only'' = Some ''1'' \<and>
   map (\<lambda>f. props (df f) ''read_only'') (frm_fields (refresh form0)) =
     [Some ''1'', None, Some ''1''] \<and>
   save_disabled (refresh form0)"
  using refresh_read_only [of form0]
  by (simp add: form0_def refresh_def Let_def disable_save_def set_read_only_def
        set_df_property_def set_prop_def)

section \<open>Properties of the Index Manager page\<close>

lemmas page_defs = refresh_page_def refresh_page_v1_def getTables_def getIndexes_def
  getSQLStats_def appendTo_page_content_def createTablesChart_def createIndexesShortcut_def
  createSQLStatsChart_def remove_layout_main_def makeActiveTablesChart_def
  makeActiveTablesChart_v1_def makeSQLStatsChart_def makeActiveTablesCard_def
  table_rows_html_def makeCard_def makeCard_v1_def no_opts_def or_else_def printed_def
  disabled_message_def rendered_def Let_def

lemma show_nat_digit: "n < 10 \<Longrightarrow> show_nat n = [''0123456789'' ! n]"
  by (simp add: show_nat.simps)

lemma show_int_neq_Nil [simp]: "show_int i \<noteq> []"
  by (simp add: show_int_def show_nat.simps [of "nat i"])

text \<open>Appending a card changes neither the requests nor \<^verbatim>\<open>page.main\<close>, adds one card to
  the page's own content and, where no page comes before, the changed card.\<close>

lemma appendTo_page_content_simps [simp]:
  "requests (appendTo_page_content k f d) = requests d"
  "main_html (appendTo_page_content k f d) = main_html d"
  "length (pages_before (appendTo_page_content k f d)) = length (pages_before d)"
  "length (page_content (appendTo_page_content k f d)) = Suc (length (page_content d))"
  "LayoutMain \<in> set (page_content (appendTo_page_content k f d)) \<longleftrightarrow>
     LayoutMain \<in> set (page_content d)"
  "pages_before d = [] \<Longrightarrow>
     page_content (appendTo_page_content k f d) = page_content d @ [Card (f k)]"
  by (auto simp: appendTo_page_content_def split: list.splits)

lemma appendTo_page_content_before_Nil [simp]:
  "pages_before (appendTo_page_content k f d) = [] \<longleftrightarrow> pages_before d = []"
  by (auto simp: appendTo_page_content_def split: list.splits)

lemmas refresh_defs = refresh_page_def refresh_page_v1_def getTables_def getIndexes_def
  getSQLStats_def createTablesChart_def createIndexesShortcut_def createSQLStatsChart_def
  remove_layout_main_def disabled_message_def rendered_def Let_def

lemma refresh_page_disabled:
  "refresh_page gr False srv d = (None, d\<lparr>main_html := disabled_message gr\<rparr>)"
  "refresh_page_v1 gr False srv d = (None, d\<lparr>main_html := disabled_message gr\<rparr>)"
  by (simp_all add: refresh_page_def refresh_page_v1_def)

lemma refresh_page_requests:
  "requests (snd (refresh_page gr True srv d)) =
     requests d @ Indexes True #
       (case indexes_api srv True of Inl e \<Rightarrow> []
        | Inr ix \<Rightarrow> Tables 10 #
            (case tables_api srv 10 of Inl e \<Rightarrow> [] | Inr ts \<Rightarrow> [Summary]))"
  by (simp add: refresh_defs split: sum.splits)

lemma refresh_page_outcome:
  "fst (refresh_page gr True srv d) =
     (case indexes_api srv True of Inl e \<Rightarrow> Some e
      | Inr ix \<Rightarrow>
          (case tables_api srv 10 of Inl e \<Rightarrow> Some e
           | Inr ts \<Rightarrow> (case summary_api srv of Inl e \<Rightarrow> Some e | Inr st \<Rightarrow> None)))"
  by (simp add: refresh_defs split: sum.splits)

lemma refresh_page_emptied:
  "LayoutMain \<notin> set (page_content (snd (refresh_page gr True srv d)))"
  "length (page_content (snd (refresh_page gr True srv d))) =
     (case indexes_api srv True of Inl e \<Rightarrow> 0
      | Inr ix \<Rightarrow>
          (case tables_api srv 10 of Inl e \<Rightarrow> 1
           | Inr ts \<Rightarrow> (case summary_api srv of Inl e \<Rightarrow> 2 | Inr st \<Rightarrow> 3)))"
  by (simp_all add: refresh_defs remove1_idem split: sum.splits)

lemma refresh_page_content:
  "pages_before d = [] \<Longrightarrow>
   page_content (snd (refresh_page gr True srv d)) =
     (case indexes_api srv True of Inl e \<Rightarrow> []
      | Inr ix \<Rightarrow>
          Card \<lparr>card_width = ''18rem'',
                card_title = ''<h3>'' @ show_int (total ix) @ ''</h3>'',
                card_subtitle = ''Indexes created by ToolBox'', card_html = [],
                card_link = Some (gr ''doctype'' ''MariaDB Index''), card_chart = None\<rparr> #
          (case tables_api srv 10 of Inl e \<Rightarrow> []
           | Inr ts \<Rightarrow>
               Card \<lparr>card_width = ''100'', card_title = [], card_subtitle = [], card_html = [],
                     card_link = None,
                     card_chart = Some \<lparr>chart_type = ''bar'', chart_title = ''Most Active Tables'',
                       chart_labels = map name ts,
                       chart_datasets = [(''Read'', map num_read_queries ts),
                                         (''Write'', map num_write_queries ts)]\<rparr>\<rparr> #
               (case summary_api srv of Inl e \<Rightarrow> []
                | Inr st \<Rightarrow>
                    [Card \<lparr>card_width = ''100'', card_title = [], card_subtitle = [],
                           card_html = [], card_link = None,
                           card_chart = Some \<lparr>chart_type = ''line'', chart_title = ''SQL Queries'',
                             chart_labels = map creation st,
                             chart_datasets = [(''Queries Recorded'', map sql_count st)]\<rparr>\<rparr>])))"
  by (simp add: refresh_defs remove1_idem makeCard_def no_opts_def or_else_def
        makeActiveTablesChart_def makeSQLStatsChart_def split: sum.splits)

lemma refresh_page_v1_enabled:
  "requests (snd (refresh_page_v1 gr True srv d)) = requests d @ [Tables 10]"
  "main_html (snd (refresh_page_v1 gr True srv d)) = Blank"
  by (simp_all add: refresh_defs split: sum.splits prod.splits)

lemma refresh_page_v1_content:
  "pages_before d = [] \<Longrightarrow>
   page_content (snd (refresh_page_v1 gr True srv d)) =
     remove1 LayoutMain (page_content d) @
       (case tables_api srv 10 of Inl e \<Rightarrow> []
        | Inr ts \<Rightarrow>
            [Card \<lparr>card_width = ''100%'', card_title = ''undefined'',
                   card_subtitle = ''undefined'', card_html = ''undefined'', card_link = None,
                   card_chart = Some \<lparr>chart_type = ''bar'', chart_title = [],
                     chart_labels = map name ts,
                     chart_datasets = [(''Read'', map num_read_queries ts),
                                       (''Write'', map num_write_queries ts)]\<rparr>\<rparr>,
             Card \<lparr>card_width = ''18rem'', card_title = ''Most Active Tables'',
                   card_subtitle = ''Tables which are most frequently queried'',
                   card_html = table_rows_html (take 5 ts),
                   card_link = None, card_chart = None\<rparr>])"
  by (simp add: refresh_defs remove1_idem makeCard_v1_def makeActiveTablesCard_def no_opts_def
        or_else_def printed_def makeActiveTablesChart_v1_def split: sum.splits)

text \<open>
  C10, as stated, fails in four ways, at a server that answers every request unless said
  otherwise. (1) On the revision in \<^verbatim>\<open>index_manager.js\<close>, with the flag set, only the
  tables request is sent, and the page gets the tables chart and the tables card: no index
  shortcut, no SQL-stats chart. (2) On the later revision, with the flag set and the
  indexes request rejected, the call ends there: the page content has been emptied, nothing
  is rendered and neither the tables nor the summary request is sent. (3) With the flag
  cleared on a page that an earlier refresh has filled, the page shows what it showed
  before, its three cards, and not the message: the message goes into the detached
  \<^verbatim>\<open>page.main\<close>. (4) With the flag set in a document where another page comes first, the
  cards on this page have neither the link nor a chart: those go to the first page.
\<close>

theorem refresh_page_counterexample:
  "refresh_page_v1 route0 True server0 doc0 =
     (None,
      \<lparr>pages_before = [], page_content = [Card tables_chart_v1, Card tables_card_v1],
       pages_after = [], main_html = Blank, requests = [Tables 10]\<rparr>) \<and>
   refresh_page route0 True server1 doc0 =
     (Some (CallRejected ''500''),
      \<lparr>pages_before = [], page_content = [], pages_after = [], main_html = Initial,
       requests = [Indexes True]\<rparr>) \<and>
   rendered (snd (refresh_page route0 False server0 (snd (refresh_page route0 True server0 doc0))))
     = [CardShown shortcut0, CardShown tables_chart0, CardShown stats_chart0] \<and>
   page_content (snd (refresh_page route0 True server0 doc1)) =
     [Card (shortcut0\<lparr>card_link := None\<rparr>), Card bare_card0, Card bare_card0]"
  by (simp add: page_defs appendTo_page_content_def server0_def server1_def doc0_def doc1_def
        route0_def shortcut0_def bare_card0_def tables_chart0_def stats_chart0_def
        tables_chart_v1_def tables_card_v1_def show_int_def show_nat_digit)

text \<open>
  C10, amended. With the flag off, both revisions of \<^verbatim>\<open>refresh\<close> send no request, resolve
  and set the markup of \<^verbatim>\<open>page.main\<close> to the "Index Manager is disabled" message with its
  link to ToolBox Settings; on a page whose content is the layout row alone, that message
  is all the page shows. With the flag on, the later revision empties the page's own
  content and sends the indexes request with \<^verbatim>\<open>toolbox_only = true\<close>, the tables request
  with limit 10 and the summary request, in that order and each awaited: a rejected
  request ends the call with that rejection, before the later requests, and the page holds
  one card for each request that succeeded. Where no other page comes before this one in
  the document, these cards are the index shortcut with its link, the tables chart and the
  SQL-stats chart. The revision in \<^verbatim>\<open>index_manager.js\<close>, with the flag on, blanks
  \<^verbatim>\<open>page.main\<close> and sends the tables request only; where no other page comes before,
  the layout row is removed and, when the request succeeds, the tables chart and the card
  of the first five tables are appended.
\<close>

theorem refresh_page_flag:
  "(\<not> enabled \<longrightarrow>
      fst (refresh_page gr enabled srv d) = None \<and>
      requests (snd (refresh_page gr enabled srv d)) = requests d \<and>
      main_html (snd (refresh_page gr enabled srv d)) = disabled_message gr \<and>
      (page_content d = [LayoutMain] \<longrightarrow>
         rendered (snd (refresh_page gr enabled srv d)) = [MainSection (disabled_message gr)]) \<and>
      fst (refresh_page_v1 gr enabled srv d) = None \<and>
      requests (snd (refresh_page_v1 gr enabled srv d)) = requests d \<and>
      main_html (snd (refresh_page_v1 gr enabled srv d)) = disabled_message gr \<and>
      (page_content d = [LayoutMain] \<longrightarrow>
         rendered (snd (refresh_page_v1 gr enabled srv d)) =
           [MainSection (disabled_message gr)])) \<and>
   (enabled \<longrightarrow>
      requests (snd (refresh_page gr enabled srv d)) =
        requests d @ Indexes True #
          (case indexes_api srv True of Inl e \<Rightarrow> []
           | Inr ix \<Rightarrow> Tables 10 #
               (case tables_api srv 10 of Inl e \<Rightarrow> [] | Inr ts \<Rightarrow> [Summary])) \<and>
      fst (refresh_page gr enabled srv d) =
        (case indexes_api srv True of Inl e \<Rightarrow> Some e
         | Inr ix \<Rightarrow>
             (case tables_api srv 10 of Inl e \<Rightarrow> Some e
              | Inr ts \<Rightarrow> (case summary_api srv of Inl e \<Rightarrow> Some e | Inr st \<Rightarrow> None))) \<and>
      LayoutMain \<notin> set (page_content (snd (refresh_page gr enabled srv d))) \<and>
      length (page_content (snd (refresh_page gr enabled srv d))) =
        (case indexes_api srv True of Inl e \<Rightarrow> 0
         | Inr ix \<Rightarrow>
             (case tables_api srv 10 of Inl e \<Rightarrow> 1
              | Inr ts \<Rightarrow> (case summary_api srv of Inl e \<Rightarrow> 2 | Inr st \<Rightarrow> 3))) \<and>
      (pages_before d = [] \<longrightarrow>
         page_content (snd (refresh_page gr enabled srv d)) =
           (case indexes_api srv True of Inl e \<Rightarrow> []
            | Inr ix \<Rightarrow>
                Card \<lparr>card_width = ''18rem'',
                      card_title = ''<h3>'' @ show_int (total ix) @ ''</h3>'',
                      card_subtitle = ''Indexes created by ToolBox'', card_html = [],
                      card_link = Some (gr ''doctype'' ''MariaDB Index''),
                      card_chart = None\<rparr> #
                (case tables_api srv 10 of Inl e \<Rightarrow> []
                 | Inr ts \<Rightarrow>
                     Card \<lparr>card_width = ''100'', card_title = [], card_subtitle = [],
                           card_html = [], card_link = None,
                           card_chart = Some
                             \<lparr>chart_type = ''bar'', chart_title = ''Most Active Tables'',
                              chart_labels = map name ts,
                              chart_datasets = [(''Read'', map num_read_queries ts),
                                                (''Write'', map num_write_queries ts)]\<rparr>\<rparr> #
                     (case summary_api srv of Inl e \<Rightarrow> []
                      | Inr st \<Rightarrow>
                          [Card \<lparr>card_width = ''100'', card_title = [], card_subtitle = [],
                                 card_html = [], card_link = None,
                                 card_chart = Some
                                   \<lparr>chart_type = ''line'', chart_title = ''SQL Queries'',
                                    chart_labels = map creation st,
                                    chart_datasets =
                                      [(''Queries Recorded'', map sql_count st)]\<rparr>\<rparr>])))) \<and>
      requests (snd (refresh_page_v1 gr enabled srv d)) = requests d @ [Tables 10] \<and>
      main_html (snd (refresh_page_v1 gr enabled srv d)) = Blank \<and>
      (pages_before d = [] \<longrightarrow>
         page_content (snd (refresh_page_v1 gr enabled srv d)) =
           remove1 LayoutMain (page_content d) @
             (case tables_api srv 10 of Inl e \<Rightarrow> []
              | Inr ts \<Rightarrow>
                  [Card \<lparr>card_width = ''100%'', card_title = ''undefined'',
                         card_subtitle = ''undefined'', card_html = ''undefined'',
                         card_link = None,
                         card_chart = Some
                           \<lparr>chart_type = ''bar'', chart_title = [],
                            chart_labels = map name ts,
                            chart_datasets = [(''Read'', map num_read_queries ts),
                                              (''Write'', map num_write_queries ts)]\<rparr>\<rparr>,
                   Card \<lparr>card_width = ''18rem'', card_title = ''Most Active Tables'',
                         card_subtitle = ''Tables which are most frequently queried'',
                         card_html = table_rows_html (take 5 ts),
                         card_link = None, card_chart = None\<rparr>])))"
proof (cases enabled)
  case False
  then show ?thesis
    by (simp add: refresh_page_disabled rendered_def)
next
  case True
  then show ?thesis
    using refresh_page_requests [of gr srv d] refresh_page_outcome [of gr srv d]
      refresh_page_emptied [of gr srv d] refresh_page_content [of d gr srv]
      refresh_page_v1_enabled [of gr srv d] refresh_page_v1_content [of d gr srv]
    by simp
qed

theorem refresh_page_flag_witness:
  "page_content doc0 = [LayoutMain] \<and> pages_before doc0 = [] \<and>
   requests (snd (refresh_page route0 False server0 doc0)) = [] \<and>
   rendered (snd (refresh_page route0 False server0 doc0)) =
     [MainSection (DisabledMessage ''/app/ToolBox Settings'' ''ToolBox Settings'')] \<and>
   rendered (snd (refresh_page_v1 route0 False server0 doc0)) =
     [MainSection (DisabledMessage ''/app/ToolBox Settings'' ''ToolBox Settings'')] \<and>
   fst (refresh_page route0 True server0 doc0) = None \<and>
   requests (snd (refresh_page route0 True server0 doc0)) = [Indexes True, Tables 10, Summary] \<and>
   page_content (snd (refresh_page route0 True server0 doc0)) =
     [Card shortcut0, Card tables_chart0, Card stats_chart0] \<and>
   fst (refresh_page route0 True server1 doc0) = Some (CallRejected ''500'') \<and>
   requests (snd (refresh_page route0 True server1 doc0)) = [Indexes True] \<and>
   page_content (snd (refresh_page route0 True server1 doc0)) = [] \<and>
   requests (snd (refresh_page_v1 route0 True server0 doc0)) = [Tables 10] \<and>
   page_content (snd (refresh_page_v1 route0 True server0 doc0)) =
     [Card tables_chart_v1, Card tables_card_v1]"
  using refresh_page_flag [where enabled = False and gr = route0 and srv = server0 and d = doc0]
        refresh_page_flag [where enabled = True and gr = route0 and srv = server0 and d = doc0]
        refresh_page_flag [where enabled = True and gr = route0 and srv = server1 and d = doc0]
  by (simp add: server0_def server1_def doc0_def route0_def disabled_message_def
        ToolboxSettings_def table_rows_html_def show_int_def show_nat_digit
        shortcut0_def bare_card0_def tables_chart0_def stats_chart0_def
        tables_chart_v1_def tables_card_v1_def)

section \<open>Properties of the lifecycle manager\<close>

lemma dropped_indexes_append [simp]:
  "dropped_indexes (ds @ es) = dropped_indexes ds @ dropped_indexes es"
  by (induction ds rule: dropped_indexes.induct) simp_all

lemma created_indexes_append [simp]:
  "created_indexes (ds @ es) = created_indexes ds @ created_indexes es"
  by (induction ds rule: created_indexes.induct) simp_all

lemma candidate_index_tagged [simp]: "is_tagged cfg (candidate_index cfg cand)"
  by (simp add: is_tagged_def candidate_index_def)

lemma same_index_refl [simp]: "same_index ix ix"
  by (simp add: same_index_def)

lemma same_index_tagged: "same_index ix e \<Longrightarrow> is_tagged cfg ix \<Longrightarrow> is_tagged cfg e"
  by (simp add: same_index_def is_tagged_def)

lemma drop_each_executed:
  "dropped_indexes (executed (drop_each ixs st)) = dropped_indexes (executed st) @ ixs"
  "created_indexes (executed (drop_each ixs st)) = created_indexes (executed st)"
  by (induction ixs arbitrary: st) (simp_all add: drop_index_def)

lemma drop_each_catalog: "set (catalog (drop_each ixs st)) \<subseteq> set (catalog st)"
proof (induction ixs arbitrary: st)
  case Nil
  show ?case by simp
next
  case (Cons ix ixs)
  have "set (catalog (drop_index ix st)) \<subseteq> set (catalog st)"
    by (auto simp: drop_index_def)
  with Cons.IH [of "drop_index ix st"] show ?case by auto
qed

lemma drop_each_keeps_untagged:
  assumes "\<forall>ix \<in> set ixs. is_tagged cfg ix" and "e \<in> set (catalog st)" and "\<not> is_tagged cfg e"
  shows "e \<in> set (catalog (drop_each ixs st))"
  using assms
proof (induction ixs arbitrary: st)
  case Nil
  then show ?case by simp
next
  case (Cons ix ixs)
  from Cons.prems have "e \<in> set (catalog (drop_index ix st))"
    by (auto simp: drop_index_def dest: same_index_tagged)
  with Cons show ?case by simp
qed

lemma backtest_cases:
  "snd (backtest cfg reply cand st) = st \<or>
   snd (backtest cfg reply cand st) = create_index (candidate_index cfg cand) st \<or>
   snd (backtest cfg reply cand st) =
     drop_index (candidate_index cfg cand) (create_index (candidate_index cfg cand) st)"
  by (simp add: backtest_def Let_def)

lemma apply_op_only_tagged_dropped:
  "only_tagged_dropped cfg st \<Longrightarrow> only_tagged_dropped cfg (apply_op cfg st x)"
proof (cases x)
  case (Backtest reply cand)
  assume "only_tagged_dropped cfg st"
  with backtest_cases [of cfg reply cand st] Backtest show ?thesis
    by (auto simp: only_tagged_dropped_def create_index_def drop_index_def)
next
  case (DropByTable t)
  assume "only_tagged_dropped cfg st"
  with DropByTable show ?thesis
    by (auto simp: only_tagged_dropped_def drop_by_table_def drop_each_executed)
next
  case DropAllManaged
  assume "only_tagged_dropped cfg st"
  with DropAllManaged show ?thesis
    by (auto simp: only_tagged_dropped_def drop_all_managed_def drop_each_executed)
qed

lemma apply_op_keeps_untagged:
  assumes "e \<in> set (catalog st)" and "\<not> is_tagged cfg e"
  shows "e \<in> set (catalog (apply_op cfg st x))"
proof (cases x)
  case (Backtest reply cand)
  have "\<not> same_index (candidate_index cfg cand) e"
    using assms(2) same_index_tagged [of "candidate_index cfg cand" e cfg] by auto
  with backtest_cases [of cfg reply cand st] Backtest assms(1) show ?thesis
    by (auto simp: create_index_def drop_index_def)
next
  case (DropByTable t)
  with assms show ?thesis
    by (auto simp: drop_by_table_def intro!: drop_each_keeps_untagged)
next
  case DropAllManaged
  with assms show ?thesis
    by (auto simp: drop_all_managed_def intro!: drop_each_keeps_untagged)
qed

lemma apply_op_tagged_are_own:
  assumes "tagged_are_own cfg st"
  shows "tagged_are_own cfg (apply_op cfg st x)"
proof (cases x)
  case (Backtest reply cand)
  with backtest_cases [of cfg reply cand st] assms show ?thesis
    by (auto simp: tagged_are_own_def create_index_def drop_index_def)
next
  case (DropByTable t)
  with assms drop_each_catalog [of "filter (\<lambda>e. is_tagged cfg e \<and> index_table e = t) (catalog st)" st]
  show ?thesis
    by (auto simp: tagged_are_own_def drop_by_table_def drop_each_executed)
next
  case DropAllManaged
  with assms drop_each_catalog [of "filter (is_tagged cfg) (catalog st)" st]
  show ?thesis
    by (auto simp: tagged_are_own_def drop_all_managed_def drop_each_executed)
qed

lemma run_only_tagged_dropped:
  "only_tagged_dropped cfg st \<Longrightarrow> only_tagged_dropped cfg (run cfg st ops)"
  by (induction ops arbitrary: st) (simp_all add: apply_op_only_tagged_dropped)

lemma run_keeps_untagged:
  "e \<in> set (catalog st) \<Longrightarrow> \<not> is_tagged cfg e \<Longrightarrow> e \<in> set (catalog (run cfg st ops))"
  by (induction ops arbitrary: st) (simp_all add: apply_op_keeps_untagged)

lemma run_tagged_are_own:
  "tagged_are_own cfg st \<Longrightarrow> tagged_are_own cfg (run cfg st ops)"
  by (induction ops arbitrary: st) (simp_all add: apply_op_tagged_are_own)

text \<open>
  C3. From any catalog, after any sequence of backtests, drops by table and bulk drops of
  the managed indexes: every index named by a DROP INDEX the manager has executed carries
  the tag; every catalog entry without the tag is still in the catalog; and when no entry
  of the starting catalog carried the tag, every dropped index is one the manager had
  created itself.
\<close>

theorem drops_only_tagged:
  "(\<forall>ix \<in> set (dropped_indexes (executed (run cfg (initial cat) ops))). is_tagged cfg ix) \<and>
   (\<forall>e \<in> set cat. \<not> is_tagged cfg e \<longrightarrow> e \<in> set (catalog (run cfg (initial cat) ops))) \<and>
   ((\<forall>e \<in> set cat. \<not> is_tagged cfg e) \<longrightarrow>
      set (dropped_indexes (executed (run cfg (initial cat) ops)))
        \<subseteq> set (created_indexes (executed (run cfg (initial cat) ops))))"
proof (intro conjI ballI impI)
  have "only_tagged_dropped cfg (initial cat)"
    by (simp add: only_tagged_dropped_def initial_def)
  then have "only_tagged_dropped cfg (run cfg (initial cat) ops)"
    by (rule run_only_tagged_dropped)
  then show "is_tagged cfg ix"
    if "ix \<in> set (dropped_indexes (executed (run cfg (initial cat) ops)))" for ix
    using that by (simp add: only_tagged_dropped_def)
next
  fix e assume "e \<in> set cat" "\<not> is_tagged cfg e"
  then show "e \<in> set (catalog (run cfg (initial cat) ops))"
    by (intro run_keeps_untagged) (simp_all add: initial_def)
next
  assume foreign: "\<forall>e \<in> set cat. \<not> is_tagged cfg e"
  then have "tagged_are_own cfg (initial cat)"
    by (simp add: tagged_are_own_def initial_def)
  then have own: "tagged_are_own cfg (run cfg (initial cat) ops)"
    by (rule run_tagged_are_own)
  have "only_tagged_dropped cfg (run cfg (initial cat) ops)"
    by (rule run_only_tagged_dropped) (simp add: only_tagged_dropped_def initial_def)
  with own show "set (dropped_indexes (executed (run cfg (initial cat) ops)))
          \<subseteq> set (created_indexes (executed (run cfg (initial cat) ops)))"
    by (auto simp: tagged_are_own_def only_tagged_dropped_def)
qed

theorem drops_only_tagged_witness:
  "\<not> is_tagged config0 foreign0 \<and>
   catalog (run config0 (initial [foreign0]) ops0) = [foreign0] \<and>
   map index_name (dropped_indexes (executed (run config0 (initial [foreign0]) ops0))) =
     [''toolbox_orders_status'', ''toolbox_orders_customer_id_status''] \<and>
   map index_name (created_indexes (executed (run config0 (initial [foreign0]) ops0))) =
     [''toolbox_orders_status'', ''toolbox_orders_customer_id_status'']"
  using drops_only_tagged [of config0 "[foreign0]" ops0]
  by (simp add: config0_def initial_def foreign0_def ops0_def backtest_def Let_def
        valid_candidate_def already_kept_def is_tagged_def candidate_index_def same_index_def
        create_index_def drop_index_def relative_gain_def drop_by_table_def)

end
